theory Spec2Isabelle
  imports Complex_Main "HOL-Library.Log_Nat"
begin

section \<open>Values of the upstream JSON-RPC endpoint\<close>

text \<open>
  Every value the gateway handles comes out of \<^verbatim>\<open>r.json()\<close>. A parsed JSON document
  is \<^verbatim>\<open>None\<close>, a \<^verbatim>\<open>bool\<close>, an \<^verbatim>\<open>int\<close> (unbounded), a \<^verbatim>\<open>str\<close>,
  a \<^verbatim>\<open>list\<close> or a \<^verbatim>\<open>dict\<close> with string keys. A dict is kept as an association
  list read with \<open>map_of\<close>. JSON numbers with a fraction or an exponent are left out
  of the input model: every field the gateway computes with (slot, block height, fee,
  balance, sample counters) is an integer of the RPC interface.
\<close>

datatype json =
    JNull
  | JBool bool
  | JInt int
  | JStr string
  | JList "json list"
  | JDict "(string \<times> json) list"

text \<open>
  The exceptions the code can meet. \<open>HTTPException\<close> carries the status code and the
  detail; the three details are the three \<^verbatim>\<open>raise HTTPException\<close> of the source.
\<close>

datatype detail =
    RpcRequestError string
  | RpcError json
  | NotFoundOrInvalid

datatype error =
    HTTPException nat detail
  | AttributeError
  | TypeError
  | KeyError
  | IndexError
  | ValueError
  | ZeroDivisionError
  | OverflowError
  | JSONDecodeError
  | RequestValidationError

text \<open>Sequencing of two steps where the first may raise.\<close>

definition bindE :: "error + 'a \<Rightarrow> ('a \<Rightarrow> error + 'b) \<Rightarrow> error + 'b" where
  "bindE m f = (case m of Inl e \<Rightarrow> Inl e | Inr v \<Rightarrow> f v)"

subsection \<open>The Python operations the code uses on these values\<close>

text \<open>Truth value testing (\<^verbatim>\<open>if x\<close>, \<^verbatim>\<open>x or y\<close>, \<^verbatim>\<open>not x\<close>).\<close>

fun truthy :: "json \<Rightarrow> bool" where
  "truthy JNull = False"
| "truthy (JBool b) = b"
| "truthy (JInt i) = (i \<noteq> 0)"
| "truthy (JStr s) = (s \<noteq> [])"
| "truthy (JList xs) = (xs \<noteq> [])"
| "truthy (JDict kvs) = (kvs \<noteq> [])"

definition py_or :: "json \<Rightarrow> json \<Rightarrow> json" where
  "py_or a b = (if truthy a then a else b)"

text \<open>\<^verbatim>\<open>x.get(k, d)\<close>: only a dict has the method.\<close>

fun py_get :: "json \<Rightarrow> string \<Rightarrow> json \<Rightarrow> error + json" where
  "py_get (JDict kvs) k d = Inr (case map_of kvs k of None \<Rightarrow> d | Some v \<Rightarrow> v)"
| "py_get _ k d = Inl AttributeError"

text \<open>\<^verbatim>\<open>x[0]\<close>: a dict parsed from JSON has string keys only, so the key 0 is missing.\<close>

fun py_item0 :: "json \<Rightarrow> error + json" where
  "py_item0 (JList []) = Inl IndexError"
| "py_item0 (JList (x # xs)) = Inr x"
| "py_item0 (JStr []) = Inl IndexError"
| "py_item0 (JStr (c # cs)) = Inr (JStr [c])"
| "py_item0 (JDict kvs) = Inl KeyError"
| "py_item0 _ = Inl TypeError"

text \<open>\<^verbatim>\<open>x[k]\<close> for a string key \<open>k\<close>.\<close>

fun py_item :: "json \<Rightarrow> string \<Rightarrow> error + json" where
  "py_item (JDict kvs) k = (case map_of kvs k of None \<Rightarrow> Inl KeyError | Some v \<Rightarrow> Inr v)"
| "py_item _ k = Inl TypeError"

text \<open>\<^verbatim>\<open>k in x\<close> for a string \<open>k\<close>: key of a dict, element of a list, substring of a string.\<close>

fun starts_with :: "string \<Rightarrow> string \<Rightarrow> bool" where
  "starts_with s [] = True"
| "starts_with [] (p # ps) = False"
| "starts_with (c # cs) (p # ps) = (c = p \<and> starts_with cs ps)"

fun has_substring :: "string \<Rightarrow> string \<Rightarrow> bool" where
  "has_substring [] p = (p = [])"
| "has_substring (c # cs) p = (starts_with (c # cs) p \<or> has_substring cs p)"

fun py_in :: "string \<Rightarrow> json \<Rightarrow> error + bool" where
  "py_in k (JDict kvs) = Inr (map_of kvs k \<noteq> None)"
| "py_in k (JList xs) = Inr (JStr k \<in> set xs)"
| "py_in k (JStr s) = Inr (has_substring s k)"
| "py_in k _ = Inl TypeError"

text \<open>\<^verbatim>\<open>len(x)\<close>; a dict counts its keys.\<close>

fun py_len :: "json \<Rightarrow> error + nat" where
  "py_len (JList xs) = Inr (length xs)"
| "py_len (JStr s) = Inr (length s)"
| "py_len (JDict kvs) = Inr (length (remdups (map fst kvs)))"
| "py_len _ = Inl TypeError"

text \<open>Iterating over a value: the elements of a list, the characters of a string, the keys of a dict.\<close>

fun py_iter :: "json \<Rightarrow> error + json list" where
  "py_iter (JList xs) = Inr xs"
| "py_iter (JStr s) = Inr (map (\<lambda>c. JStr [c]) s)"
| "py_iter (JDict kvs) = Inr (map JStr (remdups (map fst kvs)))"
| "py_iter _ = Inl TypeError"

text \<open>Iterating over \<^verbatim>\<open>x[:n]\<close> for \<open>n \<ge> 0\<close>: only sequences can be sliced.\<close>

fun py_slice_to :: "json \<Rightarrow> nat \<Rightarrow> error + json list" where
  "py_slice_to (JList xs) n = Inr (take n xs)"
| "py_slice_to (JStr s) n = Inr (map (\<lambda>c. JStr [c]) (take n s))"
| "py_slice_to _ n = Inl TypeError"

section \<open>The RPC client\<close>

text \<open>
  The outcome of \<^verbatim>\<open>requests.post\<close> followed by \<^verbatim>\<open>raise_for_status\<close> and
  \<^verbatim>\<open>r.json()\<close>: a \<^verbatim>\<open>RequestException\<close> (with its text), a body that is not JSON,
  or the parsed body.
\<close>

datatype http_response =
    RequestFailed string
  | InvalidJson
  | JsonBody json

text \<open>
  The upstream endpoint answers the \<open>n\<close>-th request of the gateway (counted from 0) from
  the request's payload. A computation threads the list of payloads posted so far and
  may raise.
\<close>

type_synonym upstream = "nat \<Rightarrow> json \<Rightarrow> http_response"

type_synonym 'a io = "json list \<Rightarrow> (error + 'a) \<times> json list"

definition rpc_payload :: "string \<Rightarrow> json list option \<Rightarrow> json" where
  "rpc_payload method params =
     JDict [(''jsonrpc'', JStr ''2.0''), (''id'', JInt 1), (''method'', JStr method),
            (''params'', JList (case params of None \<Rightarrow> [] | Some ps \<Rightarrow> ps))]"

text \<open>What \<open>rpc_call\<close> does with the outcome of its single POST.\<close>

definition rpc_result :: "http_response \<Rightarrow> error + json" where
  "rpc_result r =
     (case r of
        RequestFailed e \<Rightarrow> Inl (HTTPException 502 (RpcRequestError e))
      | InvalidJson \<Rightarrow> Inl JSONDecodeError
      | JsonBody data \<Rightarrow>
          bindE (py_in ''error'' data) (\<lambda>has_error.
            if has_error
            then bindE (py_item data ''error'') (\<lambda>err. Inl (HTTPException 502 (RpcError err)))
            else py_get data ''result'' JNull))"

definition rpc_call :: "upstream \<Rightarrow> string \<Rightarrow> json list option \<Rightarrow> json io" where
  "rpc_call up method params sent =
     (let payload = rpc_payload method params
      in (rpc_result (up (length sent) payload), sent @ [payload]))"

text \<open>Sequencing of computations, and a pure step inside a computation.\<close>

definition bindIO :: "'a io \<Rightarrow> ('a \<Rightarrow> 'b io) \<Rightarrow> 'b io" where
  "bindIO m f sent = (case m sent of (Inl e, sent') \<Rightarrow> (Inl e, sent') | (Inr v, sent') \<Rightarrow> f v sent')"

definition liftE :: "error + 'a \<Rightarrow> 'a io" where
  "liftE r sent = (r, sent)"

text \<open>\<^verbatim>\<open>try: x = m  except HTTPException: x = None\<close>.\<close>

definition http_error_as_none :: "json io \<Rightarrow> json io" where
  "http_error_as_none m sent =
     (case m sent of
        (Inl (HTTPException c d), sent') \<Rightarrow> (Inr JNull, sent')
      | other \<Rightarrow> other)"

section \<open>The transaction labeler\<close>

text \<open>The body of the \<^verbatim>\<open>try\<close> block of \<^verbatim>\<open>_program_label\<close>.\<close>

definition program_label_body :: "json \<Rightarrow> error + string" where
  "program_label_body tx =
     bindE (py_get tx ''transaction'' (JDict [])) (\<lambda>t.
     bindE (py_get t ''message'' (JDict [])) (\<lambda>message.
     bindE (py_get message ''instructions'' (JList [])) (\<lambda>instructions.
     bindE (if truthy instructions
            then bindE (py_item0 instructions) (\<lambda>i0.
                 bindE (py_get i0 ''programId'' JNull) (\<lambda>a.
                 bindE (if truthy a then Inr a
                        else bindE (py_item0 instructions) (\<lambda>i1.
                             py_get i1 ''programIdIndex'' JNull)) (\<lambda>prog.
                 Inr (case prog of JStr s \<Rightarrow> Some s | _ \<Rightarrow> None))))
            else Inr None) (\<lambda>found.
     case found of
       Some s \<Rightarrow> Inr s
     | None \<Rightarrow>
         bindE (py_get tx ''meta'' (JDict [])) (\<lambda>meta.
         bindE (py_get meta ''err'' JNull) (\<lambda>err.
         Inr (if err = JNull then ''Success'' else ''Error'')))))))"

text \<open>\<^verbatim>\<open>except Exception: return "Transaction"\<close>.\<close>

definition program_label :: "json \<Rightarrow> string" where
  "program_label tx =
     (case program_label_body tx of Inl e \<Rightarrow> ''Transaction'' | Inr s \<Rightarrow> s)"

section \<open>Numbers\<close>

text \<open>
  \<^verbatim>\<open>bool\<close> is a subclass of \<^verbatim>\<open>int\<close>: \<^verbatim>\<open>True\<close> counts as 1 in arithmetic. Every other
  value makes an arithmetic operator raise \<^verbatim>\<open>TypeError\<close>.
\<close>

fun py_int_of :: "json \<Rightarrow> error + int" where
  "py_int_of (JInt i) = Inr i"
| "py_int_of (JBool b) = Inr (if b then 1 else 0)"
| "py_int_of _ = Inl TypeError"

text \<open>\<^verbatim>\<open>a - b\<close>; the left operand is evaluated first.\<close>

definition py_sub :: "json \<Rightarrow> json \<Rightarrow> error + int" where
  "py_sub a b = bindE (py_int_of a) (\<lambda>x. bindE (py_int_of b) (\<lambda>y. Inr (x - y)))"

subsection \<open>Floats\<close>

text \<open>
  A finite Python float is the rational number it denotes (the sign of a zero is not
  kept). \<open>rnd64\<close> rounds a rational to the nearest IEEE 754 binary64 number, ties to
  even: \<open>expo q\<close> is the binary exponent of \<open>q\<close> (\<open>2 powi expo q \<le> \<bar>q\<bar> < 2 powi (expo q + 1)\<close>),
  a normal number has 53 significant bits, and below \<open>2 powi (- 1022)\<close> the
  spacing stays \<open>2 powi (- 1074)\<close>.
\<close>

definition round_half_even :: "rat \<Rightarrow> int" where
  "round_half_even q =
     (let n = \<lfloor>q\<rfloor>; r = q - of_int n
      in if r < 1 / 2 then n else if 1 / 2 < r then n + 1 else if even n then n else n + 1)"

definition expo :: "rat \<Rightarrow> int" where
  "expo q =
     (let (n, d) = quotient_of \<bar>q\<bar>; k = bitlen n - bitlen d
      in if power_int 2 k \<le> \<bar>q\<bar> then k else k - 1)"

definition rnd64 :: "rat \<Rightarrow> rat" where
  "rnd64 q =
     (if q = 0 then 0
      else let u = power_int 2 (max (expo q - 52) (- 1074))
           in of_int (round_half_even (q / u)) * u)"

text \<open>
  A correctly rounded result that does not fit a float (its binary exponent is above
  1023, that is \<open>2 ^ 1024 \<le> \<bar>r\<bar>\<close>) raises \<^verbatim>\<open>OverflowError\<close>.
\<close>

definition to_float :: "rat \<Rightarrow> error + rat" where
  "to_float q = (let r = rnd64 q in if 1024 \<le> expo r then Inl OverflowError else Inr r)"

text \<open>\<^verbatim>\<open>a / b\<close> on two ints: the correctly rounded quotient.\<close>

definition py_truediv :: "int \<Rightarrow> int \<Rightarrow> error + rat" where
  "py_truediv a b = (if b = 0 then Inl ZeroDivisionError else to_float (of_int a / of_int b))"

text \<open>
  \<^verbatim>\<open>round(x, ndigits)\<close> on a float: the exact value of \<open>x\<close> is rounded to
  \<open>ndigits\<close> decimal places, ties to even, and the decimal result is converted back to
  the nearest float.
\<close>

definition py_round :: "rat \<Rightarrow> nat \<Rightarrow> error + rat" where
  "py_round x ndigits = to_float (of_int (round_half_even (x * 10 ^ ndigits)) / 10 ^ ndigits)"

text \<open>\<^verbatim>\<open>v / 1_000_000_000\<close> for a value \<open>v\<close> of the upstream.\<close>

definition lamports_to_sol :: "json \<Rightarrow> error + rat" where
  "lamports_to_sol v = bindE (py_int_of v) (\<lambda>i. py_truediv i 1000000000)"

section \<open>The stats aggregator\<close>

record stats =
  tps :: "rat option"
  slot :: json
  validators :: nat
  recentBlocks :: int

text \<open>\<^verbatim>\<open>sum(s.get(k, 0) for s in samples)\<close>, from the start value \<open>acc\<close>.\<close>

fun sum_field :: "string \<Rightarrow> json list \<Rightarrow> int \<Rightarrow> error + int" where
  "sum_field k [] acc = Inr acc"
| "sum_field k (s # ss) acc =
     bindE (py_get s k (JInt 0)) (\<lambda>v. bindE (py_int_of v) (\<lambda>i. sum_field k ss (acc + i)))"

definition compute_tps :: "json \<Rightarrow> error + rat option" where
  "compute_tps samples =
     (if truthy samples
      then bindE (py_iter samples) (\<lambda>ss.
           bindE (sum_field ''numTransactions'' ss 0) (\<lambda>tx.
           bindE (sum_field ''samplePeriodSecs'' ss 0) (\<lambda>secs.
           if secs \<noteq> 0
           then bindE (py_truediv tx secs) (\<lambda>x. bindE (py_round x 2) (\<lambda>t. Inr (Some t)))
           else Inr None)))
      else Inr None)"

definition count_validators :: "json \<Rightarrow> error + nat" where
  "count_validators vote_accounts =
     bindE (py_get vote_accounts ''current'' (JList [])) (\<lambda>current.
     bindE (py_get vote_accounts ''delinquent'' (JList [])) (\<lambda>delinquent.
     bindE (py_len current) (\<lambda>n. bindE (py_len delinquent) (\<lambda>m. Inr (n + m)))))"

text \<open>\<^verbatim>\<open>max(0, (height2 or height1) - (height1 or 0))\<close>.\<close>

definition recent_blocks :: "json \<Rightarrow> json \<Rightarrow> error + int" where
  "recent_blocks height1 height2 =
     bindE (py_sub (py_or height2 height1) (py_or height1 (JInt 0))) (\<lambda>d. Inr (max 0 d))"

text \<open>The \<^verbatim>\<open>time.sleep(0.05)\<close> between the two height calls has no part in the result.\<close>

definition solana_stats :: "upstream \<Rightarrow> stats io" where
  "solana_stats up =
     bindIO (rpc_call up ''getSlot'' None) (\<lambda>slot_now.
     bindIO (rpc_call up ''getRecentPerformanceSamples'' (Some [JInt 30])) (\<lambda>samples.
     bindIO (liftE (compute_tps (py_or samples (JList [])))) (\<lambda>tps_now.
     bindIO (rpc_call up ''getVoteAccounts'' None) (\<lambda>vote_accounts.
     bindIO (liftE (count_validators (py_or vote_accounts (JDict [])))) (\<lambda>n.
     bindIO (rpc_call up ''getBlockHeight'' None) (\<lambda>height1.
     bindIO (rpc_call up ''getBlockHeight'' None) (\<lambda>height2.
     bindIO (liftE (recent_blocks height1 height2)) (\<lambda>blocks.
     liftE (Inr \<lparr>tps = tps_now, slot = slot_now, validators = n,
                  recentBlocks = blocks\<rparr>)))))))))"

section \<open>The transaction feed\<close>

record tx_item =
  item_sig :: json
  item_slot :: json
  item_fee :: rat
  item_type :: string

definition system_program :: string where
  "system_program = ''11111111111111111111111111111111''"

definition tx_options :: json where
  "tx_options = JDict [(''encoding'', JStr ''json''), (''maxSupportedTransactionVersion'', JInt 0)]"

text \<open>The loop body after \<^verbatim>\<open>if not tx: continue\<close>: the item built from a transaction.\<close>

definition tx_summary :: "json \<Rightarrow> json \<Rightarrow> error + tx_item" where
  "tx_summary signature tx =
     bindE (py_get tx ''meta'' JNull) (\<lambda>meta.
     bindE (py_get (py_or meta (JDict [])) ''fee'' (JInt 0)) (\<lambda>fee_lamports.
     bindE (lamports_to_sol fee_lamports) (\<lambda>x.
     bindE (py_round x 9) (\<lambda>fee_sol.
     bindE (py_get tx ''slot'' JNull) (\<lambda>sl.
     Inr \<lparr>item_sig = signature, item_slot = sl, item_fee = fee_sol,
          item_type = program_label tx\<rparr>)))))"

fun fetch_items :: "upstream \<Rightarrow> json list \<Rightarrow> tx_item list \<Rightarrow> tx_item list io" where
  "fetch_items up [] items sent = (Inr items, sent)"
| "fetch_items up (s # ss) items sent =
     (case py_get s ''signature'' JNull of
        Inl e \<Rightarrow> (Inl e, sent)
      | Inr signature \<Rightarrow>
          (case rpc_call up ''getTransaction'' (Some [signature, tx_options]) sent of
             (Inl e, sent') \<Rightarrow> (Inl e, sent')
           | (Inr tx, sent') \<Rightarrow>
               if \<not> truthy tx then fetch_items up ss items sent'
               else (case tx_summary signature tx of
                       Inl e \<Rightarrow> (Inl e, sent')
                     | Inr item \<Rightarrow> fetch_items up ss (items @ [item]) sent')))"

text \<open>\<^verbatim>\<open>limit: int = Query(10, ge=1, le=20)\<close> is checked before the function body runs.\<close>

definition recent_transactions :: "upstream \<Rightarrow> int \<Rightarrow> tx_item list io" where
  "recent_transactions up limit =
     (if limit < 1 \<or> 20 < limit then liftE (Inl RequestValidationError)
      else bindIO (rpc_call up ''getSignaturesForAddress''
                     (Some [JStr system_program, JDict [(''limit'', JInt limit)]])) (\<lambda>r.
           let sigs = py_or r (JList [])
           in if \<not> truthy sigs then liftE (Inr [])
              else bindIO (liftE (py_slice_to sigs (nat limit))) (\<lambda>ss. fetch_items up ss [])))"

section \<open>The search classifier\<close>

text \<open>
  A Python string is modelled by its code points below 256. \<^verbatim>\<open>str.strip()\<close> removes
  the characters of \<^verbatim>\<open>str.isspace\<close> from both ends; \<^verbatim>\<open>str.isdigit()\<close> holds of a
  non-empty string of digit characters, which include the superscripts
  \<^verbatim>\<open>U+00B2\<close>, \<^verbatim>\<open>U+00B3\<close> and \<^verbatim>\<open>U+00B9\<close>; \<^verbatim>\<open>int()\<close> accepts the decimal
  digits only, and at most 4300 of them: beyond the interpreter's default
  \<^verbatim>\<open>max_str_digits\<close> it raises \<^verbatim>\<open>ValueError\<close> (leading zeros count).
\<close>

definition is_space :: "char \<Rightarrow> bool" where
  "is_space c = (let n = (of_char c :: nat)
                 in (9 \<le> n \<and> n \<le> 13) \<or> (28 \<le> n \<and> n \<le> 32) \<or> n = 133 \<or> n = 160)"

definition py_strip :: "string \<Rightarrow> string" where
  "py_strip s = rev (dropWhile is_space (rev (dropWhile is_space s)))"

definition is_decimal :: "char \<Rightarrow> bool" where
  "is_decimal c = (let n = (of_char c :: nat) in 48 \<le> n \<and> n \<le> 57)"

definition is_digit :: "char \<Rightarrow> bool" where
  "is_digit c = (let n = (of_char c :: nat) in is_decimal c \<or> n = 178 \<or> n = 179 \<or> n = 185)"

definition py_isdigit :: "string \<Rightarrow> bool" where
  "py_isdigit s = (s \<noteq> [] \<and> list_all is_digit s)"

definition digit_value :: "char \<Rightarrow> int" where
  "digit_value c = int (of_char c) - 48"

definition max_str_digits :: nat where
  "max_str_digits = 4300"

text \<open>\<^verbatim>\<open>int(s)\<close> for a string that passed \<^verbatim>\<open>isdigit\<close>.\<close>

definition py_int :: "string \<Rightarrow> error + int" where
  "py_int s =
     (if s \<noteq> [] \<and> list_all is_decimal s \<and> length s \<le> max_str_digits
      then Inr (foldl (\<lambda>a c. 10 * a + digit_value c) 0 s)
      else Inl ValueError)"

datatype search_result =
    SlotResult int nat
  | SignatureResult string json rat bool
  | AddressResult string rat "json list"

text \<open>\<^verbatim>\<open>[s.get("signature") for s in xs]\<close>.\<close>

fun signatures_of :: "json list \<Rightarrow> error + json list" where
  "signatures_of [] = Inr []"
| "signatures_of (s # ss) =
     bindE (py_get s ''signature'' JNull) (\<lambda>v. bindE (signatures_of ss) (\<lambda>vs. Inr (v # vs)))"

text \<open>The last block of \<^verbatim>\<open>search\<close> (\<^verbatim>\<open># Assume address\<close>): its \<^verbatim>\<open>try\<close> body, then the handler.\<close>

definition search_address_body :: "upstream \<Rightarrow> string \<Rightarrow> search_result io" where
  "search_address_body up q_stripped =
     bindIO (rpc_call up ''getBalance'' (Some [JStr q_stripped])) (\<lambda>bal.
     bindIO (rpc_call up ''getSignaturesForAddress''
               (Some [JStr q_stripped, JDict [(''limit'', JInt 5)]])) (\<lambda>sigs.
     liftE (bindE (lamports_to_sol (py_or bal (JInt 0))) (\<lambda>balance.
            bindE (py_iter (py_or sigs (JList []))) (\<lambda>ss.
            bindE (signatures_of ss) (\<lambda>signatures.
            Inr (AddressResult q_stripped balance signatures)))))))"

definition search_address :: "upstream \<Rightarrow> string \<Rightarrow> search_result io" where
  "search_address up q_stripped sent =
     (case search_address_body up q_stripped sent of
        (Inl (HTTPException c d), sent') \<Rightarrow> (Inl (HTTPException 404 NotFoundOrInvalid), sent')
      | other \<Rightarrow> other)"

text \<open>The slot block (\<^verbatim>\<open># Try slot number\<close>), entered when \<^verbatim>\<open>isdigit\<close> holds.\<close>

definition search_slot :: "upstream \<Rightarrow> string \<Rightarrow> search_result io" where
  "search_slot up q_stripped =
     bindIO (liftE (py_int q_stripped)) (\<lambda>slot_no.
     bindIO (http_error_as_none (rpc_call up ''getBlock'' (Some [JInt slot_no, tx_options]))) (\<lambda>block.
     liftE (if truthy block
            then bindE (py_get block ''transactions'' (JList [])) (\<lambda>txs.
                 bindE (py_len txs) (\<lambda>n. Inr (SlotResult slot_no n)))
            else Inr (SlotResult slot_no 0))))"

text \<open>The result built when the signature lookup returned a transaction.\<close>

definition signature_result :: "string \<Rightarrow> json \<Rightarrow> error + search_result" where
  "signature_result q_stripped tx =
     bindE (py_get tx ''meta'' JNull) (\<lambda>meta.
     bindE (py_get (py_or meta (JDict [])) ''fee'' (JInt 0)) (\<lambda>fee_lamports.
     bindE (lamports_to_sol fee_lamports) (\<lambda>fee.
     bindE (py_get tx ''slot'' JNull) (\<lambda>sl.
     bindE (py_get tx ''meta'' JNull) (\<lambda>meta'.
     bindE (py_get (py_or meta' (JDict [])) ''err'' JNull) (\<lambda>err.
     Inr (SignatureResult q_stripped sl fee (err = JNull))))))))"

text \<open>\<^verbatim>\<open>q: str = Query(..., min_length=2)\<close> is checked before the function body runs.\<close>

definition search :: "upstream \<Rightarrow> string \<Rightarrow> search_result io" where
  "search up q =
     (if length q < 2 then liftE (Inl RequestValidationError)
      else let q_stripped = py_strip q
           in if py_isdigit q_stripped then search_slot up q_stripped
              else if 80 \<le> length q_stripped \<and> length q_stripped \<le> 100
              then bindIO (http_error_as_none
                             (rpc_call up ''getTransaction'' (Some [JStr q_stripped, tx_options]))) (\<lambda>tx.
                   if truthy tx then liftE (signature_result q_stripped tx)
                   else search_address up q_stripped)
              else search_address up q_stripped)"

text \<open>
  An upstream that answers the slot, sample and vote-account calls and then returns a
  null result for both block heights.
\<close>

definition null_heights_upstream :: upstream where
  "null_heights_upstream n payload =
     (if n = 0 then JsonBody (JDict [(''result'', JInt 250000000)])
      else if n = 1 then JsonBody (JDict [(''result'', JList [])])
      else if n = 2 then JsonBody (JDict [(''result'',
                           JDict [(''current'', JList []), (''delinquent'', JList [])])])
      else JsonBody (JDict [(''jsonrpc'', JStr ''2.0''), (''id'', JInt 1), (''result'', JNull)]))"

section \<open>Well-formed upstream data and sample exchanges\<close>

text \<open>
  A performance sample of the RPC interface: a JSON object whose counters, where
  present, are integers. \<open>sample_int k s\<close> is the counter \<open>k\<close> of the sample \<open>s\<close>, 0 when
  the sample does not carry it.
\<close>

fun is_performance_sample :: "json \<Rightarrow> bool" where
  "is_performance_sample (JDict kvs) =
     ((case map_of kvs ''numTransactions'' of
         None \<Rightarrow> True | Some (JInt n) \<Rightarrow> True | Some _ \<Rightarrow> False)
      \<and> (case map_of kvs ''samplePeriodSecs'' of
            None \<Rightarrow> True | Some (JInt n) \<Rightarrow> True | Some _ \<Rightarrow> False))"
| "is_performance_sample _ = False"

fun sample_int :: "string \<Rightarrow> json \<Rightarrow> int" where
  "sample_int k (JDict kvs) = (case map_of kvs k of Some (JInt n) \<Rightarrow> n | _ \<Rightarrow> 0)"
| "sample_int k _ = 0"

text \<open>An upstream for a whole stats request, with the two samples of the specification.\<close>

definition samples_upstream :: upstream where
  "samples_upstream n payload =
     (if n = 0 then JsonBody (JDict [(''result'', JInt 250000000)])
      else if n = 1 then JsonBody (JDict [(''result'', JList
              [JDict [(''numTransactions'', JInt 100), (''samplePeriodSecs'', JInt 60)],
               JDict [(''numTransactions'', JInt 50), (''samplePeriodSecs'', JInt 30)]])])
      else if n = 2 then JsonBody (JDict [(''result'',
              JDict [(''current'', JList [JDict [], JDict []]),
                     (''delinquent'', JList [JDict []])])])
      else if n = 3 then JsonBody (JDict [(''result'', JInt 1000)])
      else JsonBody (JDict [(''result'', JInt 1002)]))"

text \<open>Queries: 85 decimal digits between blanks, 4301 decimal digits, and 87 base58 characters.\<close>

definition long_digit_query :: string where
  "long_digit_query =
     '' 1234567890123456789012345678901234567890123456789012345678901234567890123456789012345 ''"

definition oversized_digit_query :: string where
  "oversized_digit_query = replicate 4301 (CHR ''7'')"

definition signature_query :: string where
  "signature_query =
     ''5VERv8NMvzbJMEkV8xnrLkEaWRtSz9CosKDYjCJjBRnbJLgp8uirBgmQpjKhoR4tjF3ZpRzrFmBV6UjKdiSZkQU''"

text \<open>
  Upstreams for the search: one that returns a block with two transactions, one that
  is unreachable, one that answers the balance and fails the signature listing, and one
  that knows no transaction but answers the two address calls.
\<close>

definition block_upstream :: upstream where
  "block_upstream n payload =
     JsonBody (JDict [(''result'',
        JDict [(''blockHeight'', JInt 7), (''transactions'', JList [JDict [], JDict []])])])"

definition down_upstream :: upstream where
  "down_upstream n payload = RequestFailed ''timed out''"

definition listing_fails_upstream :: upstream where
  "listing_fails_upstream n payload =
     (if n = 0 then JsonBody (JDict [(''result'', JInt 5)])
      else JsonBody (JDict [(''error'', JDict [(''code'', JInt (- 32602))])]))"

definition absent_tx_upstream :: upstream where
  "absent_tx_upstream n payload =
     (if n = 0 then JsonBody (JDict [(''jsonrpc'', JStr ''2.0''), (''result'', JNull)])
      else if n = 1 then JsonBody (JDict [(''result'', JInt 2000000000)])
      else JsonBody (JDict [(''result'', JList [JDict [(''signature'', JStr ''abc'')]])]))"

text \<open>
  For the transaction feed: the \<^verbatim>\<open>signature\<close> field of an entry of the listing, the
  request the loop posts for an entry, and whether the upstream, asked as its \<open>n\<close>-th
  request, returns a transaction (a true value) for the entry.
\<close>

fun signature_field :: "json \<Rightarrow> json" where
  "signature_field (JDict kvs) = (case map_of kvs ''signature'' of None \<Rightarrow> JNull | Some v \<Rightarrow> v)"
| "signature_field _ = JNull"

definition listing_payload :: "int \<Rightarrow> json" where
  "listing_payload limit =
     rpc_payload ''getSignaturesForAddress''
       (Some [JStr system_program, JDict [(''limit'', JInt limit)]])"

definition detail_payload :: "json \<Rightarrow> json" where
  "detail_payload s = rpc_payload ''getTransaction'' (Some [signature_field s, tx_options])"

definition detail_present :: "upstream \<Rightarrow> nat \<times> json \<Rightarrow> bool" where
  "detail_present up = (\<lambda>(n, s).
     case rpc_result (up n (detail_payload s)) of Inr tx \<Rightarrow> truthy tx | Inl e \<Rightarrow> False)"

text \<open>
  Whether the loop body runs through for the entry: the detail call returns, and a
  returned transaction can be summarised.
\<close>

definition detail_ok :: "upstream \<Rightarrow> nat \<times> json \<Rightarrow> bool" where
  "detail_ok up = (\<lambda>(n, s).
     case s of
       JDict kvs \<Rightarrow>
         (case rpc_result (up n (detail_payload s)) of
            Inr tx \<Rightarrow> \<not> truthy tx \<or> (case tx_summary (signature_field s) tx of
                                       Inr item \<Rightarrow> True | Inl e \<Rightarrow> False)
          | Inl e \<Rightarrow> False)
     | _ \<Rightarrow> False)"

text \<open>
  An upstream whose listing is empty, and one that lists three signatures and has
  pruned the transaction of the second.
\<close>

definition empty_listing_upstream :: upstream where
  "empty_listing_upstream n payload = JsonBody (JDict [(''result'', JList [])])"

definition feed_upstream :: upstream where
  "feed_upstream n payload =
     (if n = 0 then JsonBody (JDict [(''result'', JList
              [JDict [(''signature'', JStr ''sigA''), (''slot'', JInt 11)],
               JDict [(''signature'', JStr ''sigB''), (''slot'', JInt 12)],
               JDict [(''signature'', JStr ''sigC''), (''slot'', JInt 13)]])])
      else if n = 2 then JsonBody (JDict [(''result'', JNull)])
      else JsonBody (JDict [(''result'',
              JDict [(''slot'', JInt (10 + int n)),
                     (''meta'', JDict [(''fee'', JInt 5000), (''err'', JNull)]),
                     (''transaction'', JDict [(''message'', JDict [(''instructions'', JList [])])])])]))"

section \<open>Basic facts\<close>

lemma bindE_simps:
  "bindE (Inl e) f = Inl e" "bindE (Inr v) f = f v"
  by (simp_all add: bindE_def)

lemma bindE_Inr: "bindE m f = Inr v \<Longrightarrow> \<exists>x. m = Inr x \<and> f x = Inr v"
  by (cases m) (simp_all add: bindE_def)

lemma bindIO_simps:
  "m sent = (Inl e, sent') \<Longrightarrow> bindIO m f sent = (Inl e, sent')"
  "m sent = (Inr v, sent') \<Longrightarrow> bindIO m f sent = f v sent'"
  by (simp_all add: bindIO_def)

lemma py_get_Inr:
  "py_get x k d = Inr v \<Longrightarrow>
     \<exists>kvs. x = JDict kvs \<and> v = (case map_of kvs k of None \<Rightarrow> d | Some w \<Rightarrow> w)"
  by (cases x) auto

lemma rpc_call_eval:
  "rpc_call up method params sent =
     (rpc_result (up (length sent) (rpc_payload method params)),
      sent @ [rpc_payload method params])"
  by (simp add: rpc_call_def Let_def)

section \<open>The RPC client: results\<close>

text \<open>
  Claim C5. When the response body is a JSON object, \<open>rpc_call\<close> raises the 502
  exception carrying the value of the \<^verbatim>\<open>error\<close> field if the object has one, and
  otherwise returns the \<^verbatim>\<open>result\<close> field, or \<^verbatim>\<open>None\<close> when it is missing. In both
  cases exactly one request has been posted: nothing is retried.
\<close>

theorem rpc_call_well_formed:
  assumes "up (length sent) (rpc_payload method params) = JsonBody (JDict kvs)"
  shows "rpc_call up method params sent =
           ((case map_of kvs ''error'' of
               Some err \<Rightarrow> Inl (HTTPException 502 (RpcError err))
             | None \<Rightarrow> Inr (case map_of kvs ''result'' of None \<Rightarrow> JNull | Some v \<Rightarrow> v)),
            sent @ [rpc_payload method params])"
  using assms
  by (simp add: rpc_call_def rpc_result_def bindE_simps Let_def split: option.splits)

theorem rpc_call_well_formed_witness:
  "rpc_call (\<lambda>n p. JsonBody (JDict [(''jsonrpc'', JStr ''2.0''), (''result'', JInt 7),
                                     (''id'', JInt 1)]))
      ''getSlot'' None [] = (Inr (JInt 7), [rpc_payload ''getSlot'' None])
   \<and> rpc_call (\<lambda>n p. JsonBody (JDict [(''error'', JDict [(''code'', JInt (- 32601))])]))
      ''getSlot'' None [] =
      (Inl (HTTPException 502 (RpcError (JDict [(''code'', JInt (- 32601))]))),
       [rpc_payload ''getSlot'' None])
   \<and> rpc_call (\<lambda>n p. JsonBody (JDict [(''id'', JInt 1)]))
      ''getSlot'' None [] = (Inr JNull, [rpc_payload ''getSlot'' None])"
  using rpc_call_well_formed
          [of "\<lambda>n p. JsonBody (JDict [(''jsonrpc'', JStr ''2.0''), (''result'', JInt 7),
                                     (''id'', JInt 1)])" "[]" "''getSlot''" None]
        rpc_call_well_formed
          [of "\<lambda>n p. JsonBody (JDict [(''error'', JDict [(''code'', JInt (- 32601))])])"
              "[]" "''getSlot''" None]
        rpc_call_well_formed
          [of "\<lambda>n p. JsonBody (JDict [(''id'', JInt 1)])" "[]" "''getSlot''" None]
  by simp

section \<open>The transaction labeler: results\<close>

text \<open>
  Claim C7. For every value, the labeler returns a string: either the body of its
  \<^verbatim>\<open>try\<close> block raised and the result is \<^verbatim>\<open>"Transaction"\<close>, or the body returned and
  the result is \<^verbatim>\<open>"Success"\<close>, \<^verbatim>\<open>"Error"\<close>, or the string stored as \<^verbatim>\<open>programId\<close> or
  \<^verbatim>\<open>programIdIndex\<close> of the first instruction of the input's message.
\<close>

theorem program_label_range:
  "(\<exists>e. program_label_body tx = Inl e \<and> program_label tx = ''Transaction'')
   \<or> (program_label_body tx = Inr (program_label tx)
       \<and> (program_label tx = ''Success'' \<or> program_label tx = ''Error''
          \<or> (\<exists>kvs tkvs mkvs ikvs rest.
                tx = JDict kvs \<and> map_of kvs ''transaction'' = Some (JDict tkvs)
                \<and> map_of tkvs ''message'' = Some (JDict mkvs)
                \<and> map_of mkvs ''instructions'' = Some (JList (JDict ikvs # rest))
                \<and> (map_of ikvs ''programId'' = Some (JStr (program_label tx))
                   \<or> map_of ikvs ''programIdIndex'' = Some (JStr (program_label tx))))))"
proof (cases "program_label_body tx")
  case (Inl e)
  then show ?thesis by (simp add: program_label_def)
next
  case (Inr s)
  then have lab: "program_label tx = s" by (simp add: program_label_def)
  from Inr obtain t message instructions found where
    t: "py_get tx ''transaction'' (JDict []) = Inr t" and
    m: "py_get t ''message'' (JDict []) = Inr message" and
    i: "py_get message ''instructions'' (JList []) = Inr instructions" and
    f: "(if truthy instructions
            then bindE (py_item0 instructions) (\<lambda>i0.
                 bindE (py_get i0 ''programId'' JNull) (\<lambda>a.
                 bindE (if truthy a then Inr a
                        else bindE (py_item0 instructions) (\<lambda>i1.
                             py_get i1 ''programIdIndex'' JNull)) (\<lambda>prog.
                 Inr (case prog of JStr s \<Rightarrow> Some s | _ \<Rightarrow> None))))
            else Inr None) = Inr found" and
    r: "(case found of
       Some s \<Rightarrow> Inr s
     | None \<Rightarrow>
         bindE (py_get tx ''meta'' (JDict [])) (\<lambda>meta.
         bindE (py_get meta ''err'' JNull) (\<lambda>err.
         Inr (if err = JNull then ''Success'' else ''Error'')))) = Inr s"
    unfolding program_label_body_def by (auto dest!: bindE_Inr)
  show ?thesis
  proof (cases found)
    case None
    with r have "s = ''Success'' \<or> s = ''Error''"
      by (auto dest!: bindE_Inr split: if_splits)
    with Inr lab show ?thesis by auto
  next
    case (Some p)
    with r have sp: "s = p" by simp
    from f Some have tr: "truthy instructions" by (auto split: if_splits)
    with f Some obtain i0 a prog where
      i0: "py_item0 instructions = Inr i0" and
      a: "py_get i0 ''programId'' JNull = Inr a" and
      pr: "(if truthy a then Inr a
            else bindE (py_item0 instructions) (\<lambda>i1. py_get i1 ''programIdIndex'' JNull))
           = Inr prog" and
      ps: "prog = JStr p"
      by (auto dest!: bindE_Inr split: json.splits)
    from a obtain ikvs where ik: "i0 = JDict ikvs"
      and av: "a = (case map_of ikvs ''programId'' of None \<Rightarrow> JNull | Some w \<Rightarrow> w)"
      by (auto dest: py_get_Inr)
    from i0 ik obtain rest where ins: "instructions = JList (JDict ikvs # rest)"
      by (cases instructions rule: py_item0.cases) auto
    from pr ps i0 ik av
    have pid: "map_of ikvs ''programId'' = Some (JStr p)
               \<or> map_of ikvs ''programIdIndex'' = Some (JStr p)"
      by (auto simp: bindE_simps split: if_splits option.splits)
    from t obtain kvs where kv: "tx = JDict kvs"
      and tv: "t = (case map_of kvs ''transaction'' of None \<Rightarrow> JDict [] | Some w \<Rightarrow> w)"
      by (auto dest: py_get_Inr)
    from m obtain tkvs where tk: "t = JDict tkvs"
      and mv: "message = (case map_of tkvs ''message'' of None \<Rightarrow> JDict [] | Some w \<Rightarrow> w)"
      by (auto dest: py_get_Inr)
    from i obtain mkvs where mk: "message = JDict mkvs"
      and iv: "instructions =
                 (case map_of mkvs ''instructions'' of None \<Rightarrow> JList [] | Some w \<Rightarrow> w)"
      by (auto dest: py_get_Inr)
    from iv ins have c3: "map_of mkvs ''instructions'' = Some (JList (JDict ikvs # rest))"
      by (auto split: option.splits)
    from mv mk c3 have c2: "map_of tkvs ''message'' = Some (JDict mkvs)"
      by (auto split: option.splits)
    from tv tk c2 have c1: "map_of kvs ''transaction'' = Some (JDict tkvs)"
      by (auto split: option.splits)
    from Inr lab sp kv c1 c2 c3 pid show ?thesis by blast
  qed
qed

text \<open>
  Claim C8, as stated, fails: a transaction with no field at all is labelled
  \<^verbatim>\<open>"Success"\<close>, because every missing field is read with a default.
\<close>

theorem program_label_empty_dict_counterexample:
  "\<not> program_label (JDict []) = ''Transaction''"
  by (simp add: program_label_def program_label_body_def bindE_simps)

text \<open>
  Claim C8, amended. A dict that has no \<^verbatim>\<open>meta\<close> and no \<^verbatim>\<open>transaction\<close> (or a
  transaction without \<^verbatim>\<open>message\<close>, or a message without \<^verbatim>\<open>instructions\<close>) is labelled
  \<^verbatim>\<open>"Success"\<close>; a value that is not a dict is labelled \<^verbatim>\<open>"Transaction"\<close>.
\<close>

theorem program_label_missing_fields:
  "(map_of kvs ''meta'' = None \<and>
    (map_of kvs ''transaction'' = None
     \<or> map_of kvs ''transaction'' = Some (JDict tkvs)
        \<and> (map_of tkvs ''message'' = None
           \<or> map_of tkvs ''message'' = Some (JDict mkvs)
              \<and> map_of mkvs ''instructions'' = None))
    \<longrightarrow> program_label (JDict kvs) = ''Success'')
   \<and> ((\<forall>d. tx \<noteq> JDict d) \<longrightarrow> program_label tx = ''Transaction'')"
proof (intro conjI impI)
  assume "\<forall>d. tx \<noteq> JDict d"
  then have "py_get tx ''transaction'' (JDict []) = Inl AttributeError"
    by (cases tx) simp_all
  then show "program_label tx = ''Transaction''"
    by (simp add: program_label_def program_label_body_def bindE_simps)
next
  assume "map_of kvs ''meta'' = None \<and>
    (map_of kvs ''transaction'' = None
     \<or> map_of kvs ''transaction'' = Some (JDict tkvs)
        \<and> (map_of tkvs ''message'' = None
           \<or> map_of tkvs ''message'' = Some (JDict mkvs)
              \<and> map_of mkvs ''instructions'' = None))"
  then show "program_label (JDict kvs) = ''Success''"
    by (auto simp: program_label_def program_label_body_def bindE_simps)
qed

theorem program_label_missing_fields_witness:
  "program_label (JDict [(''slot'', JInt 5),
                         (''transaction'', JDict [(''signatures'', JList [])])]) = ''Success''
   \<and> program_label (JList []) = ''Transaction''"
  using program_label_missing_fields
          [of "[(''slot'', JInt 5), (''transaction'', JDict [(''signatures'', JList [])])]"
              "[(''signatures'', JList [])]" "[]" "JList []"]
  by simp

section \<open>The stats aggregator: results\<close>

text \<open>
  Claim C3 does not hold of the code: when both block-height calls return a null
  result, \<^verbatim>\<open>height2 or height1\<close> is \<^verbatim>\<open>None\<close> and the subtraction raises
  \<^verbatim>\<open>TypeError\<close>, so the stats request fails instead of reporting 0 recent blocks.
\<close>

theorem recent_blocks_both_absent:
  "recent_blocks JNull JNull = Inl TypeError
   \<and> fst (solana_stats null_heights_upstream []) = Inl TypeError"
  by (simp add: recent_blocks_def py_or_def py_sub_def bindE_simps solana_stats_def bindIO_def
      liftE_def rpc_call_eval rpc_result_def null_heights_upstream_def compute_tps_def
      count_validators_def)

lemma http_error_as_none_rpc:
  "http_error_as_none (rpc_call up method params) sent =
     ((case rpc_result (up (length sent) (rpc_payload method params)) of
         Inl (HTTPException c d) \<Rightarrow> Inr JNull
       | other \<Rightarrow> other),
      sent @ [rpc_payload method params])"
  by (simp add: http_error_as_none_def rpc_call_eval split: sum.splits error.splits)

text \<open>
  Claim C2. When the sample call returns a list of performance samples, the tps
  computation is \<^verbatim>\<open>round(tx / secs, 2)\<close> on the two sums, and \<^verbatim>\<open>None\<close> when the list is
  empty or the summed period is 0; a stats result carries exactly that value, so its
  \<open>tps\<close> is absent if and only if the list is empty or the summed period is 0.
\<close>

lemma sum_field_samples:
  "list_all is_performance_sample ss \<Longrightarrow>
     (k = ''numTransactions'' \<or> k = ''samplePeriodSecs'') \<Longrightarrow>
     sum_field k ss acc = Inr (acc + sum_list (map (sample_int k) ss))"
proof (induction ss arbitrary: acc)
  case Nil
  then show ?case by simp
next
  case (Cons s ss)
  from Cons.prems obtain kvs where s: "s = JDict kvs" by (cases s) auto
  from Cons.prems s have "bindE (py_get s k (JInt 0)) py_int_of = Inr (sample_int k s)"
    by (auto simp: bindE_simps split: option.splits json.splits)
  then obtain v where v: "py_get s k (JInt 0) = Inr v" "py_int_of v = Inr (sample_int k s)"
    by (auto dest: bindE_Inr)
  with Cons show ?case by (simp add: bindE_simps add.assoc)
qed

lemma compute_tps_samples:
  assumes "list_all is_performance_sample ss"
  shows "compute_tps (py_or (JList ss) (JList [])) =
           (if ss = [] \<or> sum_list (map (sample_int ''samplePeriodSecs'') ss) = 0 then Inr None
            else bindE (py_truediv (sum_list (map (sample_int ''numTransactions'') ss))
                                   (sum_list (map (sample_int ''samplePeriodSecs'') ss)))
                   (\<lambda>x. bindE (py_round x 2) (\<lambda>t. Inr (Some t))))"
  using assms by (simp add: compute_tps_def py_or_def bindE_simps sum_field_samples)

lemma solana_stats_tps:
  assumes "solana_stats up sent = (Inr st, sent')"
  shows "\<exists>samples. rpc_result (up (Suc (length sent))
                      (rpc_payload ''getRecentPerformanceSamples'' (Some [JInt 30]))) = Inr samples
           \<and> compute_tps (py_or samples (JList [])) = Inr (tps st)"
  using assms
  by (auto simp: solana_stats_def bindIO_def rpc_call_eval liftE_def
      split: sum.splits prod.splits)

theorem stats_tps:
  assumes "rpc_result (up (Suc (length sent))
             (rpc_payload ''getRecentPerformanceSamples'' (Some [JInt 30]))) = Inr (JList ss)"
    and "list_all is_performance_sample ss"
    and "tx = sum_list (map (sample_int ''numTransactions'') ss)"
    and "secs = sum_list (map (sample_int ''samplePeriodSecs'') ss)"
  shows "compute_tps (py_or (JList ss) (JList [])) =
           (if ss = [] \<or> secs = 0 then Inr None
            else bindE (py_truediv tx secs) (\<lambda>x. bindE (py_round x 2) (\<lambda>t. Inr (Some t))))
       \<and> (\<forall>st sent'. solana_stats up sent = (Inr st, sent') \<longrightarrow>
            (tps st = None \<longleftrightarrow> ss = [] \<or> secs = 0)
            \<and> (ss \<noteq> [] \<and> 0 < secs \<longrightarrow>
                 (\<exists>x t. py_truediv tx secs = Inr x \<and> py_round x 2 = Inr t
                        \<and> tps st = Some t)))"
proof -
  have c: "compute_tps (py_or (JList ss) (JList [])) =
           (if ss = [] \<or> secs = 0 then Inr None
            else bindE (py_truediv tx secs) (\<lambda>x. bindE (py_round x 2) (\<lambda>t. Inr (Some t))))"
    using compute_tps_samples [OF assms(2)] assms(3,4) by simp
  have "(tps st = None \<longleftrightarrow> ss = [] \<or> secs = 0)
            \<and> (ss \<noteq> [] \<and> 0 < secs \<longrightarrow>
                 (\<exists>x t. py_truediv tx secs = Inr x \<and> py_round x 2 = Inr t
                        \<and> tps st = Some t))"
    if "solana_stats up sent = (Inr st, sent')" for st sent'
  proof -
    from solana_stats_tps [OF that] assms(1)
    have "compute_tps (py_or (JList ss) (JList [])) = Inr (tps st)" by auto
    with c have e: "(if ss = [] \<or> secs = 0 then Inr None
            else bindE (py_truediv tx secs) (\<lambda>x. bindE (py_round x 2) (\<lambda>t. Inr (Some t))))
          = Inr (tps st)" by simp
    show ?thesis
    proof (cases "ss = [] \<or> secs = 0")
      case True
      with e show ?thesis by auto
    next
      case False
      with e have "bindE (py_truediv tx secs) (\<lambda>x. bindE (py_round x 2) (\<lambda>t. Inr (Some t)))
          = Inr (tps st)" by simp
      then obtain x t where "py_truediv tx secs = Inr x" "py_round x 2 = Inr t" "tps st = Some t"
        by (auto dest!: bindE_Inr)
      with False show ?thesis by auto
    qed
  qed
  with c show ?thesis by blast
qed

lemma truediv_150_90: "py_truediv 150 90 = Inr (7505999378950827 / 4503599627370496)"
  by code_simp

lemma round_150_90:
  "py_round (7505999378950827 / 4503599627370496) 2 = Inr (940126422213591 / 562949953421312)"
  by code_simp

lemma samples_upstream_stats:
  "fst (solana_stats samples_upstream []) =
     Inr \<lparr>tps = Some (940126422213591 / 562949953421312), slot = JInt 250000000,
          validators = 3, recentBlocks = 2\<rparr>"
  by (simp add: solana_stats_def bindIO_def rpc_call_eval liftE_def samples_upstream_def
      rpc_result_def bindE_simps compute_tps_def py_or_def truediv_150_90 round_150_90
      count_validators_def recent_blocks_def py_sub_def)

text \<open>
  The samples of the specification's scenario: 150 transactions in 90 seconds give the
  float nearest to 1.67.
\<close>

theorem stats_tps_witness:
  "\<exists>st sent'. solana_stats samples_upstream [] = (Inr st, sent')
      \<and> tps st = Some (940126422213591 / 562949953421312)"
proof -
  let ?ss = "[JDict [(''numTransactions'', JInt 100), (''samplePeriodSecs'', JInt 60)],
              JDict [(''numTransactions'', JInt 50), (''samplePeriodSecs'', JInt 30)]]"
  have h1: "rpc_result (samples_upstream (Suc (length []))
             (rpc_payload ''getRecentPerformanceSamples'' (Some [JInt 30]))) = Inr (JList ?ss)"
    by (simp add: samples_upstream_def rpc_result_def bindE_simps)
  have h2: "list_all is_performance_sample ?ss" by simp
  have h3: "(150::int) = sum_list (map (sample_int ''numTransactions'') ?ss)"
    and h4: "(90::int) = sum_list (map (sample_int ''samplePeriodSecs'') ?ss)" by simp_all
  obtain st sent' where e: "solana_stats samples_upstream [] = (Inr st, sent')"
    using samples_upstream_stats by (cases "solana_stats samples_upstream []") auto
  have "?ss \<noteq> [] \<and> (0::int) < 90" by simp
  with stats_tps [of samples_upstream "[]" ?ss 150 90, OF h1 h2 h3 h4] e
  obtain x t where a: "py_truediv 150 90 = Inr x" and b: "py_round x 2 = Inr t"
    and c: "tps st = Some t"
    by blast
  from a truediv_150_90 have "x = 7505999378950827 / 4503599627370496"
    by (metis sum.inject(2))
  with b round_150_90 have "t = 940126422213591 / 562949953421312"
    by (metis sum.inject(2))
  with c have "tps st = Some (940126422213591 / 562949953421312)" by (simp only:)
  with e show ?thesis by blast
qed

section \<open>The search classifier: results\<close>

lemma py_int_decimal:
  "qs \<noteq> [] \<Longrightarrow> list_all is_decimal qs \<Longrightarrow> length qs \<le> 4300 \<Longrightarrow>
     py_isdigit qs \<and> py_int qs = Inr (foldl (\<lambda>a c. 10 * a + digit_value c) 0 qs)"
  by (auto simp: py_isdigit_def py_int_def is_digit_def list_all_iff max_str_digits_def)

lemma search_slot_sent:
  "py_int qs = Inr n \<Longrightarrow>
   snd (search_slot up qs sent) = sent @ [rpc_payload ''getBlock'' (Some [JInt n, tx_options])]"
  by (simp add: search_slot_def bindIO_def liftE_def http_error_as_none_rpc
      split: sum.splits error.splits)

lemma search_slot_result:
  "py_int qs = Inr n \<Longrightarrow>
   fst (search_slot up qs sent) =
     (case rpc_result (up (length sent) (rpc_payload ''getBlock'' (Some [JInt n, tx_options]))) of
        Inl (HTTPException c d) \<Rightarrow> Inr (SlotResult n 0)
      | Inl e \<Rightarrow> Inl e
      | Inr block \<Rightarrow>
          if truthy block
          then bindE (py_get block ''transactions'' (JList [])) (\<lambda>txs.
               bindE (py_len txs) (\<lambda>k. Inr (SlotResult n k)))
          else Inr (SlotResult n 0))"
  by (simp add: search_slot_def bindIO_def liftE_def http_error_as_none_rpc
      split: sum.splits error.splits)

text \<open>
  Claim C1, as stated, fails: a query of 4301 decimal digits passes \<^verbatim>\<open>isdigit\<close>, and
  \<^verbatim>\<open>int()\<close> then raises \<^verbatim>\<open>ValueError\<close> before any request is posted, so the search
  returns no \<open>SlotResult\<close>.
\<close>

theorem search_oversized_digits_counterexample:
  "2 \<le> length oversized_digit_query
   \<and> py_strip oversized_digit_query = oversized_digit_query
   \<and> list_all is_decimal oversized_digit_query
   \<and> search block_upstream oversized_digit_query [] = (Inl ValueError, [])"
proof -
  have d: "is_decimal (CHR ''7'')" "is_digit (CHR ''7'')" "\<not> is_space (CHR ''7'')"
    by (simp_all add: is_decimal_def is_digit_def is_space_def)
  have st: "py_strip oversized_digit_query = oversized_digit_query"
    using d(3) by (simp add: py_strip_def oversized_digit_query_def dropWhile_replicate)
  have len: "length oversized_digit_query = 4301" by (simp add: oversized_digit_query_def)
  have dec: "list_all is_decimal oversized_digit_query"
    using d(1) by (simp add: oversized_digit_query_def list_all_iff)
  have dig: "py_isdigit oversized_digit_query"
    using d(2) len by (auto simp: py_isdigit_def oversized_digit_query_def list_all_iff)
  have i: "py_int oversized_digit_query = Inl ValueError"
    using len by (simp add: py_int_def max_str_digits_def)
  have "search block_upstream oversized_digit_query [] = (Inl ValueError, [])"
    using len dig i
    by (simp add: search_def st Let_def search_slot_def bindIO_def liftE_def)
  with st len dec show ?thesis by simp
qed

text \<open>
  Claim C1, amended. A query of at least two characters whose trimmed form is a
  non-empty string of at most 4300 decimal digits (so also one of 80 to 100 digits) is
  handled as a slot: the only request sent is \<^verbatim>\<open>getBlock\<close> for the parsed number, every
  result is a \<open>SlotResult\<close> for that slot, the count is 0 when the call fails or
  returns nothing, and the length of the block's transaction list otherwise.
\<close>

theorem search_digits_is_slot:
  assumes "2 \<le> length q" and "py_strip q = qs" and "qs \<noteq> []" and "list_all is_decimal qs"
    and "length qs \<le> 4300"
    and "r = rpc_result (up (length sent)
               (rpc_payload ''getBlock''
                  (Some [JInt (foldl (\<lambda>a c. 10 * a + digit_value c) 0 qs), tx_options])))"
    and "slot_no = foldl (\<lambda>a c. 10 * a + digit_value c) 0 qs"
  shows "py_int qs = Inr slot_no
     \<and> snd (search up q sent) =
         sent @ [rpc_payload ''getBlock'' (Some [JInt slot_no, tx_options])]
     \<and> (\<forall>res. fst (search up q sent) = Inr res \<longrightarrow> (\<exists>k. res = SlotResult slot_no k))
     \<and> ((\<exists>c d. r = Inl (HTTPException c d)) \<or> (\<exists>b. r = Inr b \<and> \<not> truthy b)
          \<longrightarrow> fst (search up q sent) = Inr (SlotResult slot_no 0))
     \<and> (\<forall>kvs txs. r = Inr (JDict kvs) \<and> kvs \<noteq> []
            \<and> map_of kvs ''transactions'' = Some (JList txs)
          \<longrightarrow> fst (search up q sent) = Inr (SlotResult slot_no (length txs)))
     \<and> (\<forall>kvs. r = Inr (JDict kvs) \<and> kvs \<noteq> [] \<and> map_of kvs ''transactions'' = None
          \<longrightarrow> fst (search up q sent) = Inr (SlotResult slot_no 0))"
proof -
  from assms(3,4,5,7) have d: "py_isdigit qs" and i: "py_int qs = Inr slot_no"
    using py_int_decimal by auto
  from assms(1,2) d have s: "search up q sent = search_slot up qs sent"
    by (simp add: search_def Let_def)
  note res = search_slot_result [OF i, of up sent, folded assms(6)[unfolded assms(7)[symmetric]]]
  have 1: "snd (search up q sent) =
             sent @ [rpc_payload ''getBlock'' (Some [JInt slot_no, tx_options])]"
    using s search_slot_sent [OF i] by simp
  have 2: "\<forall>res. fst (search up q sent) = Inr res \<longrightarrow> (\<exists>k. res = SlotResult slot_no k)"
    unfolding s res
    by (auto split: sum.splits error.splits if_splits dest!: bindE_Inr)
  have 3: "(\<exists>c d. r = Inl (HTTPException c d)) \<or> (\<exists>b. r = Inr b \<and> \<not> truthy b)
          \<longrightarrow> fst (search up q sent) = Inr (SlotResult slot_no 0)"
    unfolding s res by auto
  have 4: "\<forall>kvs txs. r = Inr (JDict kvs) \<and> kvs \<noteq> []
            \<and> map_of kvs ''transactions'' = Some (JList txs)
          \<longrightarrow> fst (search up q sent) = Inr (SlotResult slot_no (length txs))"
    unfolding s res by (auto simp: bindE_simps)
  have 5: "\<forall>kvs. r = Inr (JDict kvs) \<and> kvs \<noteq> [] \<and> map_of kvs ''transactions'' = None
          \<longrightarrow> fst (search up q sent) = Inr (SlotResult slot_no 0)"
    unfolding s res by (auto simp: bindE_simps)
  from i 1 2 3 4 5 show ?thesis by blast
qed

theorem search_digits_is_slot_witness:
  "search block_upstream long_digit_query [] =
     (Inr (SlotResult
             1234567890123456789012345678901234567890123456789012345678901234567890123456789012345
             2),
      [rpc_payload ''getBlock''
         (Some [JInt 1234567890123456789012345678901234567890123456789012345678901234567890123456789012345,
                tx_options])])"
proof -
  let ?qs = "''1234567890123456789012345678901234567890123456789012345678901234567890123456789012345''"
  let ?n = "1234567890123456789012345678901234567890123456789012345678901234567890123456789012345 :: int"
  have len: "2 \<le> length long_digit_query" by (simp add: long_digit_query_def)
  have st: "py_strip long_digit_query = ?qs"
    by (simp add: py_strip_def long_digit_query_def is_space_def)
  have ne: "?qs \<noteq> []" by simp
  have dec: "list_all is_decimal ?qs" by (simp add: is_decimal_def)
  have cap: "length ?qs \<le> 4300" by simp
  have val: "?n = foldl (\<lambda>a c. 10 * a + digit_value c) 0 ?qs" by (simp add: digit_value_def)
  have r: "rpc_result (block_upstream (length [])
             (rpc_payload ''getBlock'' (Some [JInt ?n, tx_options]))) =
           Inr (JDict [(''blockHeight'', JInt 7), (''transactions'', JList [JDict [], JDict []])])"
    by (simp add: block_upstream_def rpc_result_def bindE_simps)
  note t = search_digits_is_slot [of long_digit_query ?qs _ block_upstream "[]" ?n,
      OF len st ne dec cap r [symmetric, unfolded val] val]
  from t have a: "snd (search block_upstream long_digit_query []) =
      [rpc_payload ''getBlock'' (Some [JInt ?n, tx_options])]" by simp
  from t have "fst (search block_upstream long_digit_query []) =
      Inr (SlotResult ?n (length [JDict [], JDict []]))" by auto
  with a show ?thesis by (simp add: prod_eq_iff)
qed

lemma search_address_balance_fails:
  assumes "rpc_result (up (length s) (rpc_payload ''getBalance'' (Some [JStr qs])))
           = Inl (HTTPException c d)"
  shows "search_address up qs s =
           (Inl (HTTPException 404 NotFoundOrInvalid),
            s @ [rpc_payload ''getBalance'' (Some [JStr qs])])"
  using assms by (simp add: search_address_def search_address_body_def bindIO_def rpc_call_eval)

lemma search_address_signatures_fail:
  assumes "rpc_result (up (length s) (rpc_payload ''getBalance'' (Some [JStr qs]))) = Inr bal"
    and "rpc_result (up (Suc (length s))
           (rpc_payload ''getSignaturesForAddress'' (Some [JStr qs, JDict [(''limit'', JInt 5)]])))
         = Inl (HTTPException c d)"
  shows "search_address up qs s =
           (Inl (HTTPException 404 NotFoundOrInvalid),
            s @ [rpc_payload ''getBalance'' (Some [JStr qs]),
                 rpc_payload ''getSignaturesForAddress''
                   (Some [JStr qs, JDict [(''limit'', JInt 5)]])])"
  using assms by (simp add: search_address_def search_address_body_def bindIO_def rpc_call_eval)

lemma search_address_sent:
  "snd (search_address up qs s) =
     s @ [rpc_payload ''getBalance'' (Some [JStr qs])] @
     (case rpc_result (up (length s) (rpc_payload ''getBalance'' (Some [JStr qs]))) of
        Inl e \<Rightarrow> []
      | Inr bal \<Rightarrow> [rpc_payload ''getSignaturesForAddress''
                       (Some [JStr qs, JDict [(''limit'', JInt 5)]])])"
  by (simp add: search_address_def search_address_body_def bindIO_def rpc_call_eval liftE_def
      split: sum.splits error.splits prod.splits)

lemma search_address_result:
  "fst (search_address up qs s) = Inr res \<Longrightarrow> \<exists>b sg. res = AddressResult qs b sg"
  by (auto simp: search_address_def search_address_body_def bindIO_def rpc_call_eval liftE_def
      split: sum.splits error.splits prod.splits dest!: bindE_Inr)

text \<open>
  Claim C4. For a query that is not a number: when its trimmed length is between 80
  and 100 and the \<^verbatim>\<open>getTransaction\<close> call raises the client's \<open>HTTPException\<close>, the search
  goes on with the address step (as it does at once for any other length); and in the
  address step, an \<open>HTTPException\<close> of the \<^verbatim>\<open>getBalance\<close> call, or of the
  \<^verbatim>\<open>getSignaturesForAddress\<close> call after it, ends the search with the 404 exception.
\<close>

theorem search_error_handling:
  assumes "2 \<le> length q" and "py_strip q = qs" and "\<not> py_isdigit qs"
  shows "(80 \<le> length qs \<and> length qs \<le> 100
          \<and> rpc_result (up (length sent)
                (rpc_payload ''getTransaction'' (Some [JStr qs, tx_options])))
              = Inl (HTTPException c d)
          \<longrightarrow> search up q sent =
                search_address up qs
                  (sent @ [rpc_payload ''getTransaction'' (Some [JStr qs, tx_options])]))
       \<and> (\<not> (80 \<le> length qs \<and> length qs \<le> 100)
          \<longrightarrow> search up q sent = search_address up qs sent)
       \<and> (rpc_result (up (length s) (rpc_payload ''getBalance'' (Some [JStr qs])))
              = Inl (HTTPException c' d')
          \<longrightarrow> search_address up qs s =
                (Inl (HTTPException 404 NotFoundOrInvalid),
                 s @ [rpc_payload ''getBalance'' (Some [JStr qs])]))
       \<and> (rpc_result (up (length s) (rpc_payload ''getBalance'' (Some [JStr qs]))) = Inr bal
          \<and> rpc_result (up (Suc (length s))
                (rpc_payload ''getSignaturesForAddress''
                   (Some [JStr qs, JDict [(''limit'', JInt 5)]])))
              = Inl (HTTPException c' d')
          \<longrightarrow> search_address up qs s =
                (Inl (HTTPException 404 NotFoundOrInvalid),
                 s @ [rpc_payload ''getBalance'' (Some [JStr qs]),
                      rpc_payload ''getSignaturesForAddress''
                        (Some [JStr qs, JDict [(''limit'', JInt 5)]])]))"
proof (intro conjI impI)
  assume "80 \<le> length qs \<and> length qs \<le> 100
          \<and> rpc_result (up (length sent)
                (rpc_payload ''getTransaction'' (Some [JStr qs, tx_options])))
              = Inl (HTTPException c d)"
  with assms show "search up q sent =
                search_address up qs
                  (sent @ [rpc_payload ''getTransaction'' (Some [JStr qs, tx_options])])"
    by (simp add: search_def Let_def bindIO_def http_error_as_none_rpc)
next
  assume "\<not> (80 \<le> length qs \<and> length qs \<le> 100)"
  with assms show "search up q sent = search_address up qs sent"
    by (auto simp: search_def Let_def)
next
  assume "rpc_result (up (length s) (rpc_payload ''getBalance'' (Some [JStr qs])))
              = Inl (HTTPException c' d')"
  then show "search_address up qs s =
                (Inl (HTTPException 404 NotFoundOrInvalid),
                 s @ [rpc_payload ''getBalance'' (Some [JStr qs])])"
    by (rule search_address_balance_fails)
next
  assume "rpc_result (up (length s) (rpc_payload ''getBalance'' (Some [JStr qs]))) = Inr bal
          \<and> rpc_result (up (Suc (length s))
                (rpc_payload ''getSignaturesForAddress''
                   (Some [JStr qs, JDict [(''limit'', JInt 5)]])))
              = Inl (HTTPException c' d')"
  then show "search_address up qs s =
                (Inl (HTTPException 404 NotFoundOrInvalid),
                 s @ [rpc_payload ''getBalance'' (Some [JStr qs]),
                      rpc_payload ''getSignaturesForAddress''
                        (Some [JStr qs, JDict [(''limit'', JInt 5)]])])"
    using search_address_signatures_fail by blast
qed

lemma signature_query_facts:
  "2 \<le> length signature_query" "py_strip signature_query = signature_query"
  "\<not> py_isdigit signature_query" "length signature_query = 87"
  by (simp_all add: signature_query_def py_strip_def is_space_def py_isdigit_def is_digit_def
      is_decimal_def)

text \<open>
  With the upstream unreachable, a query that looks like a signature costs two requests
  and ends in 404; with the listing failing, a short address costs two requests and
  ends in 404.
\<close>

theorem search_error_handling_witness:
  "search down_upstream signature_query [] =
     (Inl (HTTPException 404 NotFoundOrInvalid),
      [rpc_payload ''getTransaction'' (Some [JStr signature_query, tx_options]),
       rpc_payload ''getBalance'' (Some [JStr signature_query])])
   \<and> search listing_fails_upstream ''Vote111'' [] =
     (Inl (HTTPException 404 NotFoundOrInvalid),
      [rpc_payload ''getBalance'' (Some [JStr ''Vote111'']),
       rpc_payload ''getSignaturesForAddress''
         (Some [JStr ''Vote111'', JDict [(''limit'', JInt 5)]])])"
proof -
  let ?tx = "rpc_payload ''getTransaction'' (Some [JStr signature_query, tx_options])"
  have f: "rpc_result (down_upstream n p) = Inl (HTTPException 502 (RpcRequestError ''timed out''))"
    for n p by (simp add: down_upstream_def rpc_result_def)
  note t1 = search_error_handling [OF signature_query_facts(1-3),
      of down_upstream "[]" 502 "RpcRequestError ''timed out''" "[?tx]"
         502 "RpcRequestError ''timed out''"]
  from t1 f signature_query_facts(4)
  have a: "search down_upstream signature_query [] =
     (Inl (HTTPException 404 NotFoundOrInvalid),
      [?tx, rpc_payload ''getBalance'' (Some [JStr signature_query])])"
    by simp
  have g: "2 \<le> length ''Vote111''" "py_strip ''Vote111'' = ''Vote111''"
    "\<not> py_isdigit ''Vote111''"
    by (simp_all add: py_strip_def is_space_def py_isdigit_def is_digit_def is_decimal_def)
  have r0: "rpc_result (listing_fails_upstream (length [])
              (rpc_payload ''getBalance'' (Some [JStr ''Vote111'']))) = Inr (JInt 5)"
    by (simp add: listing_fails_upstream_def rpc_result_def bindE_simps)
  have r1: "rpc_result (listing_fails_upstream (Suc (length []))
              (rpc_payload ''getSignaturesForAddress''
                 (Some [JStr ''Vote111'', JDict [(''limit'', JInt 5)]])))
            = Inl (HTTPException 502 (RpcError (JDict [(''code'', JInt (- 32602))])))"
    by (simp add: listing_fails_upstream_def rpc_result_def bindE_simps)
  note t2 = search_error_handling [OF g,
      of listing_fails_upstream "[]" _ _ "[]" 502 "RpcError (JDict [(''code'', JInt (- 32602))])"
         "JInt 5"]
  from t2 r0 r1
  have b: "search listing_fails_upstream ''Vote111'' [] =
     (Inl (HTTPException 404 NotFoundOrInvalid),
      [rpc_payload ''getBalance'' (Some [JStr ''Vote111'']),
       rpc_payload ''getSignaturesForAddress''
         (Some [JStr ''Vote111'', JDict [(''limit'', JInt 5)]])])"
    by simp
  from a b show ?thesis by simp
qed

text \<open>
  Claim C10. For a query that is not a number and whose trimmed length is between 80
  and 100: when \<^verbatim>\<open>getTransaction\<close> returns without raising and its result is \<^verbatim>\<open>None\<close>
  (or any false value), the search goes on with the address step from the same point as
  after a failed lookup: \<^verbatim>\<open>getBalance\<close> is requested next, then
  \<^verbatim>\<open>getSignaturesForAddress\<close> unless the balance call raised, and no result is a
  \<open>SignatureResult\<close>.
\<close>

theorem search_absent_transaction:
  assumes "2 \<le> length q" and "py_strip q = qs" and "\<not> py_isdigit qs"
    and "80 \<le> length qs" and "length qs \<le> 100"
    and "rpc_result (up (length sent)
           (rpc_payload ''getTransaction'' (Some [JStr qs, tx_options]))) = Inr tx"
    and "\<not> truthy tx"
    and "sent' = sent @ [rpc_payload ''getTransaction'' (Some [JStr qs, tx_options])]"
  shows "search up q sent = search_address up qs sent'
       \<and> snd (search up q sent) =
           sent' @ [rpc_payload ''getBalance'' (Some [JStr qs])] @
           (case rpc_result (up (length sent') (rpc_payload ''getBalance'' (Some [JStr qs]))) of
              Inl e \<Rightarrow> []
            | Inr bal \<Rightarrow> [rpc_payload ''getSignaturesForAddress''
                             (Some [JStr qs, JDict [(''limit'', JInt 5)]])])
       \<and> (\<forall>res. fst (search up q sent) = Inr res \<longrightarrow> (\<exists>b sg. res = AddressResult qs b sg))"
proof -
  from assms have s: "search up q sent = search_address up qs sent'"
    by (simp add: search_def Let_def bindIO_def http_error_as_none_rpc)
  show ?thesis unfolding s using search_address_sent search_address_result by blast
qed

lemma truediv_two_sol: "py_truediv 2000000000 1000000000 = Inr 2"
  by code_simp

theorem search_absent_transaction_witness:
  "search absent_tx_upstream signature_query [] =
     (Inr (AddressResult signature_query 2 [JStr ''abc'']),
      [rpc_payload ''getTransaction'' (Some [JStr signature_query, tx_options]),
       rpc_payload ''getBalance'' (Some [JStr signature_query]),
       rpc_payload ''getSignaturesForAddress''
         (Some [JStr signature_query, JDict [(''limit'', JInt 5)]])])"
proof -
  have r: "rpc_result (absent_tx_upstream (length [])
             (rpc_payload ''getTransaction'' (Some [JStr signature_query, tx_options])))
           = Inr JNull"
    by (simp add: absent_tx_upstream_def rpc_result_def bindE_simps)
  have l: "80 \<le> length signature_query" "length signature_query \<le> 100"
    using signature_query_facts(4) by simp_all
  have n: "\<not> truthy JNull" by simp
  from search_absent_transaction
         [of signature_query signature_query absent_tx_upstream "[]" JNull,
          OF signature_query_facts(1-3) l r n refl]
  have "search absent_tx_upstream signature_query [] =
        search_address absent_tx_upstream signature_query
          [rpc_payload ''getTransaction'' (Some [JStr signature_query, tx_options])]"
    by simp
  then show ?thesis
    by (simp add: search_address_def search_address_body_def bindIO_def rpc_call_eval liftE_def
        absent_tx_upstream_def rpc_result_def bindE_simps py_or_def lamports_to_sol_def
        truediv_two_sol)
qed

section \<open>The transaction feed: results\<close>

lemma fetch_items_sent:
  "\<exists>k \<le> length ss. snd (fetch_items up ss items sent) = sent @ map detail_payload (take k ss)"
proof (induction ss arbitrary: items sent)
  case Nil
  then show ?case by simp
next
  case (Cons s ss)
  show ?case
  proof (cases "py_get s ''signature'' JNull")
    case (Inl e)
    then have "snd (fetch_items up (s # ss) items sent) = sent @ map detail_payload (take 0 (s # ss))"
      by simp
    then show ?thesis by blast
  next
    case (Inr sg)
    then have sg: "sg = signature_field s" by (cases s) auto
    let ?sent = "sent @ [detail_payload s]"
    let ?r = "rpc_result (up (length sent) (detail_payload s))"
    have call: "rpc_call up ''getTransaction'' (Some [sg, tx_options]) sent = (?r, ?sent)"
      by (simp add: rpc_call_eval detail_payload_def sg)
    have stop: "snd (fetch_items up (s # ss) items sent) = ?sent \<Longrightarrow> ?thesis"
    proof -
      assume "snd (fetch_items up (s # ss) items sent) = ?sent"
      then have "snd (fetch_items up (s # ss) items sent)
                 = sent @ map detail_payload (take (Suc 0) (s # ss))" by simp
      then show ?thesis by (metis Suc_leI length_Cons zero_less_Suc)
    qed
    have go: "snd (fetch_items up (s # ss) items sent) = snd (fetch_items up ss items' ?sent)
              \<Longrightarrow> ?thesis" for items'
    proof -
      assume a: "snd (fetch_items up (s # ss) items sent) = snd (fetch_items up ss items' ?sent)"
      from Cons.IH [of items' ?sent] obtain k where
        k: "k \<le> length ss" "snd (fetch_items up ss items' ?sent) = ?sent @ map detail_payload (take k ss)"
        by blast
      with a have "snd (fetch_items up (s # ss) items sent)
                   = sent @ map detail_payload (take (Suc k) (s # ss))" by simp
      with k(1) show ?thesis by (metis Suc_le_mono length_Cons)
    qed
    show ?thesis
    proof (cases ?r)
      case (Inl e)
      with Inr call show ?thesis by (intro stop) simp
    next
      case r: (Inr tx)
      show ?thesis
      proof (cases "truthy tx")
        case False
        with Inr call r show ?thesis by (intro go [of items]) simp
      next
        case True
        show ?thesis
        proof (cases "tx_summary sg tx")
          case (Inl e)
          with Inr call r True show ?thesis by (intro stop) simp
        next
          case i: (Inr item)
          with Inr call r True show ?thesis by (intro go [of "items @ [item]"]) simp
        qed
      qed
    qed
  qed
qed

lemma tx_summary_sig: "tx_summary sg tx = Inr item \<Longrightarrow> item_sig item = sg"
  by (auto simp: tx_summary_def dest!: bindE_Inr)

lemma fetch_items_success:
  "fetch_items up ss items sent = (Inr out, sent') \<Longrightarrow>
     sent' = sent @ map detail_payload ss
     \<and> (\<exists>new. out = items @ new
          \<and> map item_sig new =
              map (signature_field \<circ> snd) (filter (detail_present up) (enumerate (length sent) ss)))"
proof (induction ss arbitrary: items sent)
  case Nil
  then show ?case by simp
next
  case (Cons s ss)
  from Cons.prems obtain sg where g: "py_get s ''signature'' JNull = Inr sg"
    by (cases "py_get s ''signature'' JNull") auto
  then have sg: "sg = signature_field s" by (cases s) auto
  let ?sent = "sent @ [detail_payload s]"
  let ?r = "rpc_result (up (length sent) (detail_payload s))"
  have call: "rpc_call up ''getTransaction'' (Some [sg, tx_options]) sent = (?r, ?sent)"
    by (simp add: rpc_call_eval detail_payload_def sg)
  from Cons.prems g call obtain tx where r: "?r = Inr tx"
    by (cases ?r) auto
  show ?case
  proof (cases "truthy tx")
    case False
    with Cons.prems g call r have "fetch_items up ss items ?sent = (Inr out, sent')" by simp
    from Cons.IH [OF this] False r show ?thesis
      by (simp add: detail_present_def)
  next
    case True
    with Cons.prems g call r obtain item where i: "tx_summary sg tx = Inr item"
      by (cases "tx_summary sg tx") auto
    with Cons.prems g call r True
    have "fetch_items up ss (items @ [item]) ?sent = (Inr out, sent')" by simp
    from Cons.IH [OF this] obtain new where
      n: "sent' = ?sent @ map detail_payload ss" "out = (items @ [item]) @ new"
         "map item_sig new =
            map (signature_field \<circ> snd) (filter (detail_present up) (enumerate (length ?sent) ss))"
      by blast
    from n(2) have "out = items @ (item # new)" by simp
    moreover from n(3) True r tx_summary_sig [OF i] sg
    have "map item_sig (item # new) =
            map (signature_field \<circ> snd)
              (filter (detail_present up) (enumerate (length sent) (s # ss)))"
      by (simp add: detail_present_def)
    ultimately show ?thesis using n(1) by auto
  qed
qed

lemma fetch_items_total:
  "list_all (detail_ok up) (enumerate (length sent) ss) \<Longrightarrow>
     \<exists>out. fst (fetch_items up ss items sent) = Inr out"
proof (induction ss arbitrary: items sent)
  case Nil
  then show ?case by simp
next
  case (Cons s ss)
  from Cons.prems have ok: "detail_ok up (length sent, s)"
    and rest: "list_all (detail_ok up) (enumerate (Suc (length sent)) ss)" by simp_all
  from ok obtain kvs where s: "s = JDict kvs" by (cases s) (auto simp: detail_ok_def)
  then have g: "py_get s ''signature'' JNull = Inr (signature_field s)" by simp
  let ?sent = "sent @ [detail_payload s]"
  let ?r = "rpc_result (up (length sent) (detail_payload s))"
  have call: "rpc_call up ''getTransaction'' (Some [signature_field s, tx_options]) sent = (?r, ?sent)"
    by (simp add: rpc_call_eval detail_payload_def)
  from ok s obtain tx where r: "?r = Inr tx"
    and t: "\<not> truthy tx \<or> (\<exists>item. tx_summary (signature_field s) tx = Inr item)"
    by (auto simp: detail_ok_def split: sum.splits)
  from rest have rest': "list_all (detail_ok up) (enumerate (length ?sent) ss)" by simp
  show ?case
  proof (cases "truthy tx")
    case False
    with g call r Cons.IH [OF rest', of items] show ?thesis by simp
  next
    case True
    with t obtain item where "tx_summary (signature_field s) tx = Inr item" by blast
    with True g call r Cons.IH [OF rest', of "items @ [item]"] show ?thesis by simp
  qed
qed

lemma recent_transactions_unfold:
  assumes "1 \<le> limit" and "limit \<le> 20"
  shows "recent_transactions up limit sent =
     (case rpc_result (up (length sent) (listing_payload limit)) of
        Inl e \<Rightarrow> (Inl e, sent @ [listing_payload limit])
      | Inr r \<Rightarrow>
          if \<not> truthy (py_or r (JList [])) then (Inr [], sent @ [listing_payload limit])
          else (case py_slice_to (py_or r (JList [])) (nat limit) of
                  Inl e \<Rightarrow> (Inl e, sent @ [listing_payload limit])
                | Inr ss \<Rightarrow> fetch_items up ss [] (sent @ [listing_payload limit])))"
  using assms
  by (simp add: recent_transactions_def bindIO_def rpc_call_eval liftE_def Let_def
      listing_payload_def split: sum.splits)

lemma py_slice_to_length: "py_slice_to v n = Inr ss \<Longrightarrow> length ss \<le> n"
  by (cases v) auto

text \<open>
  Claim C6. For a limit between 1 and 20: the feed posts the listing request and then
  at most \<open>limit\<close> detail requests; an empty (or null) listing ends it at once with the
  empty sequence and no detail request; when it returns for a listing \<open>sigs\<close>, one detail
  request has been posted for each of the first \<open>limit\<close> entries, in the listing's order,
  there are at most \<open>limit\<close> items, and the items' signatures are those of the entries
  whose detail call returned a transaction, in the listing's order (an entry whose
  detail call returned nothing is left out and the later entries are still fetched); and
  it does return whenever every detail call returns nothing or a transaction that can be
  summarised.
\<close>

theorem recent_transactions_feed:
  assumes "1 \<le> limit" and "limit \<le> 20"
    and "r0 = rpc_result (up (length sent) (listing_payload limit))"
    and "sent0 = sent @ [listing_payload limit]"
  shows "(\<exists>ss. length ss \<le> nat limit
            \<and> snd (recent_transactions up limit sent) = sent0 @ map detail_payload ss)
     \<and> (\<forall>sigs. r0 = Inr sigs \<and> \<not> truthy sigs
          \<longrightarrow> recent_transactions up limit sent = (Inr [], sent0))
     \<and> (\<forall>sigs items sent'.
            r0 = Inr (JList sigs) \<and> recent_transactions up limit sent = (Inr items, sent')
          \<longrightarrow> length items \<le> nat limit
              \<and> sent' = sent0 @ map detail_payload (take (nat limit) sigs)
              \<and> map item_sig items =
                  map (signature_field \<circ> snd)
                    (filter (detail_present up)
                       (enumerate (Suc (length sent)) (take (nat limit) sigs))))
     \<and> (\<forall>sigs. r0 = Inr (JList sigs)
            \<and> list_all (detail_ok up) (enumerate (Suc (length sent)) (take (nat limit) sigs))
          \<longrightarrow> (\<exists>items. fst (recent_transactions up limit sent) = Inr items))"
proof -
  note u = recent_transactions_unfold [OF assms(1,2), of up sent, folded assms(3,4)]
  have len0: "length sent0 = Suc (length sent)" by (simp add: assms(4))
  have 1: "\<exists>ss. length ss \<le> nat limit
            \<and> snd (recent_transactions up limit sent) = sent0 @ map detail_payload ss"
  proof (cases r0)
    case (Inl e)
    with u have "snd (recent_transactions up limit sent) = sent0 @ map detail_payload []" by simp
    then show ?thesis by (metis le0 list.size(3))
  next
    case (Inr r)
    show ?thesis
    proof (cases "truthy (py_or r (JList []))")
      case False
      with u Inr have "snd (recent_transactions up limit sent) = sent0 @ map detail_payload []"
        by simp
      then show ?thesis by (metis le0 list.size(3))
    next
      case True
      show ?thesis
      proof (cases "py_slice_to (py_or r (JList [])) (nat limit)")
        case (Inl e)
        with u Inr True
        have "snd (recent_transactions up limit sent) = sent0 @ map detail_payload []" by simp
        then show ?thesis by (metis le0 list.size(3))
      next
        case s: (Inr ss)
        with u Inr True
        have e: "recent_transactions up limit sent = fetch_items up ss [] sent0" by simp
        from fetch_items_sent [of ss up "[]" sent0] obtain k where
          k: "k \<le> length ss"
             "snd (fetch_items up ss [] sent0) = sent0 @ map detail_payload (take k ss)"
          by blast
        from py_slice_to_length [OF s] have "length (take k ss) \<le> nat limit" by simp
        with e k(2) show ?thesis by metis
      qed
    qed
  qed
  have 2: "\<forall>sigs. r0 = Inr sigs \<and> \<not> truthy sigs
          \<longrightarrow> recent_transactions up limit sent = (Inr [], sent0)"
    using u by (auto simp: py_or_def)
  have 3: "length items \<le> nat limit
              \<and> sent' = sent0 @ map detail_payload (take (nat limit) sigs)
              \<and> map item_sig items =
                  map (signature_field \<circ> snd)
                    (filter (detail_present up)
                       (enumerate (Suc (length sent)) (take (nat limit) sigs)))"
    if a: "r0 = Inr (JList sigs)" and b: "recent_transactions up limit sent = (Inr items, sent')"
    for sigs items sent'
  proof (cases "sigs = []")
    case True
    with a b u show ?thesis by (simp add: py_or_def)
  next
    case False
    with a u have "recent_transactions up limit sent
                   = fetch_items up (take (nat limit) sigs) [] sent0"
      by (simp add: py_or_def)
    with b have "fetch_items up (take (nat limit) sigs) [] sent0 = (Inr items, sent')" by simp
    from fetch_items_success [OF this] len0
    have s: "sent' = sent0 @ map detail_payload (take (nat limit) sigs)"
      and m: "map item_sig items =
                map (signature_field \<circ> snd)
                  (filter (detail_present up)
                     (enumerate (Suc (length sent)) (take (nat limit) sigs)))"
      by auto
    have "length items = length (map item_sig items)" by simp
    also have "\<dots> \<le> length (enumerate (Suc (length sent)) (take (nat limit) sigs))"
      unfolding m length_map by (rule length_filter_le)
    also have "\<dots> \<le> nat limit" by simp
    finally show ?thesis using s m by simp
  qed
  have 4: "\<exists>items. fst (recent_transactions up limit sent) = Inr items"
    if a: "r0 = Inr (JList sigs)"
      and b: "list_all (detail_ok up) (enumerate (Suc (length sent)) (take (nat limit) sigs))"
    for sigs
  proof (cases "sigs = []")
    case True
    with a u show ?thesis by (simp add: py_or_def)
  next
    case False
    with a u have e: "recent_transactions up limit sent
                   = fetch_items up (take (nat limit) sigs) [] sent0"
      by (simp add: py_or_def)
    from b len0 have "list_all (detail_ok up) (enumerate (length sent0) (take (nat limit) sigs))"
      by simp
    from fetch_items_total [OF this, of "[]"] e show ?thesis by simp
  qed
  from 1 2 3 4 show ?thesis by blast
qed

lemma truediv_fee_5000:
  "py_truediv 5000 1000000000 = Inr (5902958103587057 / 1180591620717411303424)"
  by code_simp

lemma round_fee_5000:
  "py_round (5902958103587057 / 1180591620717411303424) 9
     = Inr (5902958103587057 / 1180591620717411303424)"
  by code_simp

text \<open>
  An empty listing ends the request after one call. A listing of three signatures whose
  second transaction is gone costs three detail calls and yields the first and the third
  signature, in that order.
\<close>

theorem recent_transactions_feed_witness:
  "recent_transactions empty_listing_upstream 5 [] = (Inr [], [listing_payload 5])
   \<and> (\<exists>items sent'.
        recent_transactions feed_upstream 5 [] = (Inr items, sent')
        \<and> map item_sig items = [JStr ''sigA'', JStr ''sigC'']
        \<and> sent' = [listing_payload 5,
                   detail_payload (JDict [(''signature'', JStr ''sigA''), (''slot'', JInt 11)]),
                   detail_payload (JDict [(''signature'', JStr ''sigB''), (''slot'', JInt 12)]),
                   detail_payload (JDict [(''signature'', JStr ''sigC''), (''slot'', JInt 13)])])"
proof -
  let ?A = "JDict [(''signature'', JStr ''sigA''), (''slot'', JInt 11)]"
  let ?B = "JDict [(''signature'', JStr ''sigB''), (''slot'', JInt 12)]"
  let ?C = "JDict [(''signature'', JStr ''sigC''), (''slot'', JInt 13)]"
  have lim: "(1::int) \<le> 5" "(5::int) \<le> 20" by simp_all
  have e0: "rpc_result (empty_listing_upstream (length []) (listing_payload 5)) = Inr (JList [])"
    by (simp add: empty_listing_upstream_def rpc_result_def bindE_simps)
  have n0: "\<not> truthy (JList [])" by simp
  from recent_transactions_feed [OF lim refl refl, of empty_listing_upstream "[]",
      THEN conjunct2, THEN conjunct1, rule_format, OF conjI [OF e0 n0]]
  have a: "recent_transactions empty_listing_upstream 5 [] = (Inr [], [listing_payload 5])"
    by simp
  have f0: "rpc_result (feed_upstream (length []) (listing_payload 5)) = Inr (JList [?A, ?B, ?C])"
    by (simp add: feed_upstream_def rpc_result_def bindE_simps)
  have r1: "rpc_result (feed_upstream (Suc 0) p) =
              Inr (JDict [(''slot'', JInt 11),
                     (''meta'', JDict [(''fee'', JInt 5000), (''err'', JNull)]),
                     (''transaction'', JDict [(''message'', JDict [(''instructions'', JList [])])])])"
    and r2: "rpc_result (feed_upstream 2 p) = Inr JNull"
    and r3: "rpc_result (feed_upstream 3 p) =
              Inr (JDict [(''slot'', JInt 13),
                     (''meta'', JDict [(''fee'', JInt 5000), (''err'', JNull)]),
                     (''transaction'', JDict [(''message'', JDict [(''instructions'', JList [])])])])"
    for p
    by (simp_all add: feed_upstream_def rpc_result_def bindE_simps)
  have s: "tx_summary sg
              (JDict [(''slot'', sl),
                     (''meta'', JDict [(''fee'', JInt 5000), (''err'', JNull)]),
                     (''transaction'', JDict [(''message'', JDict [(''instructions'', JList [])])])])
            = Inr \<lparr>item_sig = sg, item_slot = sl,
                   item_fee = 5902958103587057 / 1180591620717411303424,
                   item_type = ''Success''\<rparr>" for sg sl
    by (simp add: tx_summary_def bindE_simps py_or_def lamports_to_sol_def truediv_fee_5000
        round_fee_5000 program_label_def program_label_body_def)
  have en: "enumerate (Suc (length [])) (take (nat 5) [?A, ?B, ?C]) = [(1, ?A), (2, ?B), (3, ?C)]"
    by (simp add: enumerate_eq_zip upt_rec)
  have ok: "list_all (detail_ok feed_upstream)
              (enumerate (Suc (length [])) (take (nat 5) [?A, ?B, ?C]))"
    unfolding en by (simp add: detail_ok_def r1 r2 r3 s)
  note t = recent_transactions_feed [OF lim refl refl, of feed_upstream "[]"]
  note t3 = t [THEN conjunct2, THEN conjunct2, THEN conjunct1, rule_format]
  note t4 = t [THEN conjunct2, THEN conjunct2, THEN conjunct2, rule_format]
  from t4 [OF conjI [OF f0 ok]]
  obtain items where i: "fst (recent_transactions feed_upstream 5 []) = Inr items" ..
  obtain sent' where e: "recent_transactions feed_upstream 5 [] = (Inr items, sent')"
    using i by (cases "recent_transactions feed_upstream 5 []") simp
  note c = t3 [OF conjI [OF f0 e]]
  from c [THEN conjunct2, THEN conjunct1]
  have s': "sent' = [listing_payload 5, detail_payload ?A, detail_payload ?B,
                    detail_payload ?C]"
    by simp
  from c [THEN conjunct2, THEN conjunct2]
  have m: "map item_sig items = [JStr ''sigA'', JStr ''sigC'']"
    unfolding en by (simp add: detail_present_def r1 r2 r3)
  from e m s' have "recent_transactions feed_upstream 5 [] = (Inr items, sent')
        \<and> map item_sig items = [JStr ''sigA'', JStr ''sigC'']
        \<and> sent' = [listing_payload 5, detail_payload ?A, detail_payload ?B, detail_payload ?C]"
    by (intro conjI)
  then have "\<exists>items sent'.
        recent_transactions feed_upstream 5 [] = (Inr items, sent')
        \<and> map item_sig items = [JStr ''sigA'', JStr ''sigC'']
        \<and> sent' = [listing_payload 5, detail_payload ?A, detail_payload ?B, detail_payload ?C]"
    by (intro exI)
  with a show ?thesis by (rule conjI)
qed

section \<open>Floats: results\<close>






lemma two_powi_Suc: "(2::rat) powi (k + 1) = 2 * 2 powi k"
  by (simp add: power_int_add)




















section \<open>The fee in SOL: results\<close>



end
